theory Spec2Isabelle
  imports Complex_Main "HOL-Library.Sublist"
begin

section \<open>Python values\<close>

text \<open>
  A Python \<^verbatim>\<open>str\<close> is a sequence of Unicode code points, modelled as a list of natural
  numbers. \<open>py\<close> turns an ASCII literal of the source into that representation.
\<close>

type_synonym pystr = "nat list"

definition py :: "string \<Rightarrow> pystr" where
  "py s = map of_char s"

text \<open>
  The values that \<^verbatim>\<open>json.loads\<close> produces and \<^verbatim>\<open>json.dumps\<close> consumes. A \<^verbatim>\<open>dict\<close> is an
  association list read with \<open>map_of\<close>; the dict literals of the source keep their order.
\<close>

datatype pyfloat = Finite real | PosInf | NegInf | NaN

datatype pyval =
    JNull
  | JBool bool
  | JInt int
  | JFloat pyfloat
  | JStr pystr
  | JArr "pyval list"
  | JObj "(pystr \<times> pyval) list"

type_synonym pydict = "(pystr \<times> pyval) list"

text \<open>Truth value testing, as \<^verbatim>\<open>not x\<close> and \<^verbatim>\<open>if x\<close> do it.\<close>

fun truthy :: "pyval \<Rightarrow> bool" where
  "truthy JNull = False"
| "truthy (JBool b) = b"
| "truthy (JInt i) = (i \<noteq> 0)"
| "truthy (JFloat f) = (f \<noteq> Finite 0)"
| "truthy (JStr s) = (s \<noteq> [])"
| "truthy (JArr xs) = (xs \<noteq> [])"
| "truthy (JObj kvs) = (kvs \<noteq> [])"

text \<open>\<^verbatim>\<open>d.get(k)\<close> and \<^verbatim>\<open>d.get(k, default)\<close>.\<close>

definition dict_get_default :: "pydict \<Rightarrow> pystr \<Rightarrow> pyval \<Rightarrow> pyval" where
  "dict_get_default d k dflt = (case map_of d k of None \<Rightarrow> dflt | Some v \<Rightarrow> v)"

definition dict_get :: "pydict \<Rightarrow> pystr \<Rightarrow> pyval" where
  "dict_get d k = dict_get_default d k JNull"

definition has_key :: "pydict \<Rightarrow> pystr \<Rightarrow> bool" where
  "has_key d k = (map_of d k \<noteq> None)"

section \<open>Whitespace splitting\<close>

text \<open>
  \<^verbatim>\<open>str.split()\<close> without arguments: runs of whitespace separate the words, leading and
  trailing whitespace yields no empty word. Whitespace is what \<^verbatim>\<open>str.isspace\<close> accepts:
  U+0009..U+000D, U+001C..U+0020, U+0085, U+00A0, U+1680, U+2000..U+200A, U+2028, U+2029,
  U+202F, U+205F and U+3000.
\<close>

definition is_space :: "nat \<Rightarrow> bool" where
  "is_space c \<longleftrightarrow>
     (9 \<le> c \<and> c \<le> 13) \<or> (28 \<le> c \<and> c \<le> 32) \<or> c = 133 \<or> c = 160 \<or> c = 5760 \<or>
     (8192 \<le> c \<and> c \<le> 8202) \<or> c = 8232 \<or> c = 8233 \<or> c = 8239 \<or> c = 8287 \<or> c = 12288"

function py_split :: "pystr \<Rightarrow> pystr list" where
  "py_split s =
     (case dropWhile is_space s of
        [] \<Rightarrow> []
      | c # cs \<Rightarrow>
          (c # takeWhile (\<lambda>x. \<not> is_space x) cs) # py_split (dropWhile (\<lambda>x. \<not> is_space x) cs))"
  by pat_completeness auto
termination
proof (relation "measure length")
  show "wf (measure length)" by simp
next
  fix s :: pystr and c cs
  assume "dropWhile is_space s = c # cs"
  then have "length (c # cs) \<le> length s"
    by (metis length_dropWhile_le)
  moreover have "length (dropWhile (\<lambda>x. \<not> is_space x) cs) \<le> length cs"
    by (rule length_dropWhile_le)
  ultimately show "(dropWhile (\<lambda>x. \<not> is_space x) cs, s) \<in> measure length"
    by simp
qed

text \<open>
  The number of whitespace-delimited tokens of a text, stated on positions: a token starts
  at every position that holds a non-whitespace character and is either the first position
  or preceded by a whitespace character.
\<close>

definition token_start :: "pystr \<Rightarrow> nat \<Rightarrow> bool" where
  "token_start s i \<longleftrightarrow> \<not> is_space (s ! i) \<and> (i = 0 \<or> is_space (s ! (i - 1)))"

definition token_count :: "pystr \<Rightarrow> nat" where
  "token_count s = length (filter (token_start s) [0..<length s])"

text \<open>
  The same number computed in one pass: \<open>prev\<close> tells whether the previous character was
  whitespace (or the text starts here).
\<close>

fun count_starts :: "bool \<Rightarrow> pystr \<Rightarrow> nat" where
  "count_starts prev [] = 0"
| "count_starts prev (c # cs) =
     (if \<not> is_space c \<and> prev then 1 else 0) + count_starts (is_space c) cs"

section \<open>extract\_video\_id\<close>

text \<open>
  The character class \<^verbatim>\<open>[a-zA-Z0-9_-]\<close>. No flag is given to \<^verbatim>\<open>re.search\<close>, so the ranges
  are the ASCII ones.
\<close>

definition allowed :: "nat \<Rightarrow> bool" where
  "allowed c \<longleftrightarrow>
     (of_char CHR ''a'' \<le> c \<and> c \<le> of_char CHR ''z'') \<or>
     (of_char CHR ''A'' \<le> c \<and> c \<le> of_char CHR ''Z'') \<or>
     (of_char CHR ''0'' \<le> c \<and> c \<le> of_char CHR ''9'') \<or>
     c = of_char CHR ''_'' \<or> c = of_char CHR ''-''"

text \<open>
  A match object: \<open>group0\<close> is \<^verbatim>\<open>match.group(0)\<close>, the whole match, and \<open>groups\<close> is
  \<^verbatim>\<open>match.groups()\<close>, the captured groups (\<^verbatim>\<open>match.group(1)\<close> is \<open>groups ! 0\<close>).
\<close>

record match =
  group0 :: pystr
  groups :: "pystr list"

text \<open>
  The alternatives of the first pattern,
  \<^verbatim>\<open>(?:youtube\.com\/watch\?v=|youtu\.be\/|youtube\.com\/embed\/)([a-zA-Z0-9_-]{11})\<close>,
  in their order.
\<close>

definition url_shapes :: "pystr list" where
  "url_shapes = [py ''youtube.com/watch?v='', py ''youtu.be/'', py ''youtube.com/embed/'']"

text \<open>
  Matching the first pattern at the start of \<open>s\<close>: the alternatives are tried in order,
  and one succeeds when it is followed by eleven characters of the class, which the group
  captures.
\<close>

fun match_shapes :: "pystr list \<Rightarrow> pystr \<Rightarrow> match option" where
  "match_shapes [] s = None"
| "match_shapes (p # ps) s =
     (let tok = take 11 (drop (length p) s) in
      if prefix p s \<and> length tok = 11 \<and> list_all allowed tok
      then Some \<lparr>group0 = p @ tok, groups = [tok]\<rparr>
      else match_shapes ps s)"

text \<open>
  \<^verbatim>\<open>re.search\<close> scans the start positions from left to right (the end of the string
  included) and returns the first match.
\<close>

fun re_search :: "(pystr \<Rightarrow> match option) \<Rightarrow> pystr \<Rightarrow> match option" where
  "re_search m [] = m []"
| "re_search m (c # cs) = (case m (c # cs) of Some r \<Rightarrow> Some r | None \<Rightarrow> re_search m cs)"

text \<open>
  The second pattern, \<^verbatim>\<open>^[a-zA-Z0-9_-]{11}$\<close>. Without \<^verbatim>\<open>re.MULTILINE\<close>, \<^verbatim>\<open>^\<close> matches at
  position 0 only, so the search is one attempt there; \<^verbatim>\<open>$\<close> matches at the end of the
  string and also just before a newline (code point 10) that ends the string. The pattern
  has no group.
\<close>

definition search_direct :: "pystr \<Rightarrow> match option" where
  "search_direct s =
     (let tok = take 11 s in
      if length tok = 11 \<and> list_all allowed tok \<and> (drop 11 s = [] \<or> drop 11 s = [10])
      then Some \<lparr>group0 = tok, groups = []\<rparr>
      else None)"

text \<open>The loop over \<^verbatim>\<open>patterns\<close>, each pattern given as its search function.\<close>

fun first_match :: "(pystr \<Rightarrow> match option) list \<Rightarrow> pystr \<Rightarrow> pystr option" where
  "first_match [] url = None"
| "first_match (pattern # patterns) url =
     (case pattern url of
        Some m \<Rightarrow> Some (if length (groups m) > 0 then groups m ! 0 else group0 m)
      | None \<Rightarrow> first_match patterns url)"

definition extract_video_id :: "pystr \<Rightarrow> pystr option" where
  "extract_video_id url = first_match [re_search (match_shapes url_shapes), search_direct] url"

section \<open>The transcript provider\<close>

text \<open>
  The package \<^verbatim>\<open>youtube_transcript_api\<close> and the functions of the standard library that
  can fail or whose output is not fixed by the source are parameters. A call that raises
  returns \<open>Inl\<close> of the exception's \<^verbatim>\<open>str\<close>. A fetched transcript is a sequence of
  segments; the source looks at it only through its truth value (empty or not) and
  through \<^verbatim>\<open>TextFormatter.format_transcript\<close>. No call is made twice with the same
  arguments on the same object, so answering each call by a function loses no provider
  behaviour.
\<close>

record 'seg transcript =
  language_code :: pystr
  fetch :: "pystr + 'seg list"

record 'seg transcript_list =
  find_manually_created_transcript :: "pystr list \<Rightarrow> pystr + 'seg transcript"
  find_generated_transcript :: "pystr list \<Rightarrow> pystr + 'seg transcript"
  tracks :: "pystr + 'seg transcript list"

text \<open>
  \<open>tracks\<close> is \<^verbatim>\<open>list(transcript_list)\<close>; \<open>re_type_error\<close> is the \<^verbatim>\<open>str\<close> of the
  \<^verbatim>\<open>TypeError\<close> that \<^verbatim>\<open>re.search\<close> raises on an argument that is not a string;
  \<open>json_loads\<close> is \<open>None\<close> where \<^verbatim>\<open>json.loads\<close> raises.
\<close>

record 'seg library =
  list_transcripts :: "pystr \<Rightarrow> pystr + 'seg transcript_list"
  format_transcript :: "'seg list \<Rightarrow> pystr"
  re_type_error :: "pyval \<Rightarrow> pystr"
  json_loads :: "pystr \<Rightarrow> pyval option"
  json_dumps :: "pyval \<Rightarrow> pystr"

text \<open>The calls a run makes, in order.\<close>

datatype call =
    GetTranscript pyval
  | ListTranscripts pystr
  | FindManuallyCreated "pystr list"
  | FindGenerated "pystr list"
  | Enumerate
  | Fetch pystr

section \<open>get\_transcript\<close>

text \<open>
  The loop over \<^verbatim>\<open>['en', 'en-US', 'en-GB']\<close>. It returns the variables \<^verbatim>\<open>transcript\<close> and
  \<^verbatim>\<open>transcript_language\<close>, both \<^verbatim>\<open>None\<close> before the loop. The bare \<^verbatim>\<open>except\<close> turns a
  failure of either call into the next iteration.
\<close>

fun manual_loop ::
  "'seg transcript_list \<Rightarrow> pystr list \<Rightarrow> ('seg list option \<times> pyval) \<times> call list" where
  "manual_loop transcript_list [] = ((None, JNull), [])"
| "manual_loop transcript_list (lang_code # rest) =
     (case find_manually_created_transcript transcript_list [lang_code] of
        Inl e \<Rightarrow>
          (case manual_loop transcript_list rest of
             (r, cs) \<Rightarrow> (r, FindManuallyCreated [lang_code] # cs))
      | Inr manual_transcripts \<Rightarrow>
          (case fetch manual_transcripts of
             Inl e \<Rightarrow>
               (case manual_loop transcript_list rest of
                  (r, cs) \<Rightarrow>
                    (r, FindManuallyCreated [lang_code] #
                        Fetch (language_code manual_transcripts) # cs))
           | Inr t \<Rightarrow>
               ((Some t, JStr lang_code),
                [FindManuallyCreated [lang_code], Fetch (language_code manual_transcripts)])))"

text \<open>
  The last resort, lines 62 to 68. An exception raised here leaves the handler of the
  inner \<^verbatim>\<open>try\<close> and reaches \<^verbatim>\<open>except Exception as transcript_error\<close>.
\<close>

definition last_resort ::
  "'seg transcript_list \<Rightarrow> (pystr + 'seg list \<times> pyval) \<times> call list" where
  "last_resort transcript_list =
     (case tracks transcript_list of
        Inl e \<Rightarrow> (Inl e, [Enumerate])
      | Inr available_transcripts \<Rightarrow>
          (case available_transcripts of
             [] \<Rightarrow> (Inl (py ''No transcripts available''), [Enumerate])
           | first # others \<Rightarrow>
               (case fetch first of
                  Inl e \<Rightarrow> (Inl e, [Enumerate, Fetch (language_code first)])
                | Inr t \<Rightarrow>
                    (Inr (t, JStr (language_code first)),
                     [Enumerate, Fetch (language_code first)]))))"

text \<open>The auto-generated attempt, lines 55 to 60, with the last resort as its handler.\<close>

definition auto_generated ::
  "'seg transcript_list \<Rightarrow> (pystr + 'seg list \<times> pyval) \<times> call list" where
  "auto_generated transcript_list =
     (case find_generated_transcript transcript_list [py ''en''] of
        Inl e \<Rightarrow>
          (case last_resort transcript_list of (r, cs) \<Rightarrow> (r, FindGenerated [py ''en''] # cs))
      | Inr auto_transcript \<Rightarrow>
          (case fetch auto_transcript of
             Inl e \<Rightarrow>
               (case last_resort transcript_list of
                  (r, cs) \<Rightarrow>
                    (r, FindGenerated [py ''en''] # Fetch (language_code auto_transcript) # cs))
           | Inr t \<Rightarrow>
               (Inr (t, JStr (py ''en (auto-generated)'')),
                [FindGenerated [py ''en''], Fetch (language_code auto_transcript)])))"

text \<open>
  The inner \<^verbatim>\<open>try\<close>, lines 41 to 68: \<open>Inl\<close> is the exception that reaches line 70, \<open>Inr\<close>
  the final \<^verbatim>\<open>transcript\<close> and \<^verbatim>\<open>transcript_language\<close>. \<^verbatim>\<open>not transcript\<close> holds for
  \<^verbatim>\<open>None\<close> and for a transcript without segments.
\<close>

definition select_transcript ::
  "'seg transcript_list \<Rightarrow> (pystr + 'seg list \<times> pyval) \<times> call list" where
  "select_transcript transcript_list =
     (case manual_loop transcript_list [py ''en'', py ''en-US'', py ''en-GB''] of
        ((transcript, transcript_language), cs) \<Rightarrow>
          (case transcript of
             None \<Rightarrow> (case auto_generated transcript_list of (r, cs') \<Rightarrow> (r, cs @ cs'))
           | Some t \<Rightarrow>
               if t = [] then (case auto_generated transcript_list of (r, cs') \<Rightarrow> (r, cs @ cs'))
               else (Inr (t, transcript_language), cs)))"

definition failure_result :: "pystr \<Rightarrow> pyval \<Rightarrow> pydict" where
  "failure_result msg video_id =
     [(py ''success'', JBool False), (py ''error'', JStr msg), (py ''videoId'', video_id)]"

definition success_result :: "'seg library \<Rightarrow> pystr \<Rightarrow> 'seg list \<Rightarrow> pyval \<Rightarrow> pydict" where
  "success_result lib video_id transcript transcript_language =
     (let formatted_text = format_transcript lib transcript;
          video_title = py ''YouTube Video '' @ video_id
      in [(py ''success'', JBool True),
          (py ''transcript'', JStr formatted_text),
          (py ''videoTitle'', JStr video_title),
          (py ''videoId'', JStr video_id),
          (py ''language'', transcript_language),
          (py ''wordCount'', JInt (int (length (py_split formatted_text))))])"

text \<open>
  \<open>get_transcript\<close> returns the result dict and the provider calls it made. The argument
  is any Python value: on one that is not a string \<^verbatim>\<open>re.search\<close> raises, line 95 catches
  it, and \<^verbatim>\<open>video_id\<close> is not among the locals. Output to the console is not modelled.
\<close>

definition get_transcript :: "'seg library \<Rightarrow> pyval \<Rightarrow> pydict \<times> call list" where
  "get_transcript lib youtube_url =
     (case youtube_url of
        JStr url \<Rightarrow>
          (case extract_video_id url of
             None \<Rightarrow> (failure_result (py ''Invalid YouTube URL or video ID'') JNull, [])
           | Some video_id \<Rightarrow>
               (case list_transcripts lib video_id of
                  Inl e \<Rightarrow> (failure_result e (JStr video_id), [ListTranscripts video_id])
                | Inr transcript_list \<Rightarrow>
                    (case select_transcript transcript_list of
                       (Inl transcript_error, cs) \<Rightarrow>
                         (failure_result (py ''Could not fetch transcript: '' @ transcript_error)
                            (JStr video_id),
                          ListTranscripts video_id # cs)
                     | (Inr (transcript, transcript_language), cs) \<Rightarrow>
                         (success_result lib video_id transcript transcript_language,
                          ListTranscripts video_id # cs))))
      | _ \<Rightarrow> (failure_result (re_type_error lib youtube_url) JNull, []))"

section \<open>handler\<close>

record response =
  statusCode :: int
  headers :: "(pystr \<times> pystr) list"
  body :: pystr

definition cors_headers :: "(pystr \<times> pystr) list" where
  "cors_headers =
     [(py ''Access-Control-Allow-Origin'', py ''*''),
      (py ''Access-Control-Allow-Methods'', py ''POST, OPTIONS''),
      (py ''Access-Control-Allow-Headers'', py ''Content-Type'')]"

definition json_headers :: "(pystr \<times> pystr) list" where
  "json_headers = cors_headers @ [(py ''Content-Type'', py ''application/json'')]"

text \<open>
  The body of the \<^verbatim>\<open>try\<close> of lines 130 to 152; \<open>None\<close> is an exception, which line 154
  catches. \<^verbatim>\<open>json.loads\<close> raises on an argument that is not a string, and \<^verbatim>\<open>body.get\<close>
  raises when the parsed body is not a dict. The second component lists the call of
  \<open>get_transcript\<close> and the provider calls made by it.
\<close>

definition handler_try :: "'seg library \<Rightarrow> pydict \<Rightarrow> (response \<times> call list) option" where
  "handler_try lib event =
     (case dict_get_default event (py ''body'') (JStr (py ''{}'')) of
        JStr raw \<Rightarrow>
          (case json_loads lib raw of
             None \<Rightarrow> None
           | Some parsed \<Rightarrow>
               (case parsed of
                  JObj body_dict \<Rightarrow>
                    (let youtube_url = dict_get body_dict (py ''youtubeUrl'') in
                     if \<not> truthy youtube_url
                     then Some (\<lparr>statusCode = 400, headers = json_headers,
                                  body = json_dumps lib
                                    (JObj [(py ''error'', JStr (py ''youtubeUrl is required''))])\<rparr>,
                                [])
                     else
                       (case get_transcript lib youtube_url of
                          (result, cs) \<Rightarrow>
                            (let status_code =
                                   (if truthy (dict_get result (py ''success'')) then 200 else 400)
                             in Some (\<lparr>statusCode = status_code, headers = json_headers,
                                        body = json_dumps lib (JObj result)\<rparr>,
                                      GetTranscript youtube_url # cs))))
                | _ \<Rightarrow> None))
      | _ \<Rightarrow> None)"

definition handler :: "'seg library \<Rightarrow> pydict \<Rightarrow> 'ctx \<Rightarrow> response \<times> call list" where
  "handler lib event context =
     (if dict_get event (py ''httpMethod'') = JStr (py ''OPTIONS'')
      then (\<lparr>statusCode = 200, headers = cors_headers,
              body = json_dumps lib (JObj [(py ''message'', JStr (py ''CORS preflight''))])\<rparr>,
            [])
      else if dict_get event (py ''httpMethod'') \<noteq> JStr (py ''POST'')
      then (\<lparr>statusCode = 405, headers = json_headers,
              body = json_dumps lib (JObj [(py ''error'', JStr (py ''Method not allowed''))])\<rparr>,
            [])
      else
        (case handler_try lib event of
           Some r \<Rightarrow> r
         | None \<Rightarrow>
             (\<lparr>statusCode = 500, headers = json_headers,
               body = json_dumps lib (JObj [(py ''error'', JStr (py ''Internal server error''))])\<rparr>,
              [])))"

section \<open>A sample provider\<close>

text \<open>
  A concrete library for running the functions above. It follows
  \<^verbatim>\<open>youtube_transcript_api\<close>: a transcript list holds the manually created and the
  generated tracks by language code, a search returns the track of the first requested
  code that is present and raises otherwise, iteration yields the manual tracks and then
  the generated ones, and \<^verbatim>\<open>TextFormatter\<close> joins the segment texts with newlines. A
  segment is its text.
\<close>

definition sample_track :: "pystr \<Rightarrow> pystr list \<Rightarrow> pystr transcript" where
  "sample_track code segs = \<lparr>language_code = code, fetch = Inr segs\<rparr>"

fun find_first :: "(pystr \<times> pystr list) list \<Rightarrow> pystr list \<Rightarrow> pystr + pystr transcript" where
  "find_first table [] = Inl (py ''No transcripts were found'')"
| "find_first table (code # codes) =
     (case map_of table code of
        Some segs \<Rightarrow> Inr (sample_track code segs)
      | None \<Rightarrow> find_first table codes)"

definition sample_list ::
  "(pystr \<times> pystr list) list \<Rightarrow> (pystr \<times> pystr list) list \<Rightarrow> pystr transcript_list" where
  "sample_list manual generated =
     \<lparr>find_manually_created_transcript = find_first manual,
      find_generated_transcript = find_first generated,
      tracks = Inr (map (\<lambda>(code, segs). sample_track code segs) (manual @ generated))\<rparr>"

fun join_lines :: "pystr list \<Rightarrow> pystr" where
  "join_lines [] = []"
| "join_lines [x] = x"
| "join_lines (x # y # ys) = x @ [10] @ join_lines (y # ys)"

text \<open>
  The sample parser accepts the texts \<^verbatim>\<open>{}\<close> and \<^verbatim>\<open>[]\<close> only, and the sample serialiser
  returns the empty text: the runs below do not depend on more.
\<close>

definition sample_library ::
  "(pystr \<times> pystr list) list \<Rightarrow> (pystr \<times> pystr list) list \<Rightarrow> pystr library" where
  "sample_library manual generated =
     \<lparr>list_transcripts = (\<lambda>video_id. Inr (sample_list manual generated)),
      format_transcript = join_lines,
      re_type_error = (\<lambda>v. py ''expected string or bytes-like object''),
      json_loads =
        (\<lambda>raw. if raw = py ''{}'' then Some (JObj [])
               else if raw = py ''[]'' then Some (JArr [])
               else None),
      json_dumps = (\<lambda>v. [])\<rparr>"

section \<open>Vocabulary of the properties\<close>

text \<open>
  What a search followed by \<^verbatim>\<open>fetch()\<close> obtains: \<open>None\<close> when either call raises,
  otherwise the fetched segments.
\<close>

definition fetchable :: "pystr + 'seg transcript \<Rightarrow> 'seg list option" where
  "fetchable found =
     (case found of
        Inl e \<Rightarrow> None
      | Inr t \<Rightarrow> (case fetch t of Inl e \<Rightarrow> None | Inr segs \<Rightarrow> Some segs))"

text \<open>
  The invariant of a TranscriptResult: \<^verbatim>\<open>success\<close> is a boolean, the key \<^verbatim>\<open>error\<close> is
  present exactly when it is false, and the keys \<^verbatim>\<open>transcript\<close>, \<^verbatim>\<open>language\<close>,
  \<^verbatim>\<open>wordCount\<close> and \<^verbatim>\<open>videoTitle\<close> are present exactly when it is true.
\<close>

definition transcript_result_invariant :: "pydict \<Rightarrow> bool" where
  "transcript_result_invariant r =
     (case map_of r (py ''success'') of
        Some (JBool b) \<Rightarrow>
          has_key r (py ''error'') = (\<not> b) \<and>
          has_key r (py ''transcript'') = b \<and>
          has_key r (py ''language'') = b \<and>
          has_key r (py ''wordCount'') = b \<and>
          has_key r (py ''videoTitle'') = b
      | _ \<Rightarrow> False)"

text \<open>
  The vocabulary of the video id: a text starts with a URL shape that is immediately
  followed by eleven characters of the alphabet; a text contains such a shape somewhere;
  a text is a bare id, eleven characters of the alphabet and nothing else.
\<close>

definition shape_matches :: "pystr \<Rightarrow> pystr \<Rightarrow> bool" where
  "shape_matches p s \<longleftrightarrow>
     prefix p s \<and> length (take 11 (drop (length p) s)) = 11 \<and>
     list_all allowed (take 11 (drop (length p) s))"

definition contains_url_shape :: "pystr \<Rightarrow> bool" where
  "contains_url_shape url \<longleftrightarrow>
     list_ex (\<lambda>rest. list_ex (\<lambda>sh. shape_matches sh rest) url_shapes) (suffixes url)"

definition bare_id :: "pystr \<Rightarrow> bool" where
  "bare_id s \<longleftrightarrow> length s = 11 \<and> list_all allowed s"

section \<open>Literals\<close>

lemma py_eq_iff [simp]: "py a = py b \<longleftrightarrow> a = b"
  by (simp add: py_def inj_on_def)

lemma length_py [simp]: "length (py a) = length a"
  by (simp add: py_def)

section \<open>The response headers\<close>

lemma map_of_cors:
  "map_of cors_headers (py ''Access-Control-Allow-Origin'') = Some (py ''*'')"
  "map_of cors_headers (py ''Access-Control-Allow-Methods'') = Some (py ''POST, OPTIONS'')"
  "map_of cors_headers (py ''Access-Control-Allow-Headers'') = Some (py ''Content-Type'')"
  by (simp_all add: cors_headers_def)

lemma map_of_json_headers:
  "map_of json_headers (py ''Access-Control-Allow-Origin'') = Some (py ''*'')"
  "map_of json_headers (py ''Access-Control-Allow-Methods'') = Some (py ''POST, OPTIONS'')"
  "map_of json_headers (py ''Access-Control-Allow-Headers'') = Some (py ''Content-Type'')"
  by (simp_all add: json_headers_def cors_headers_def)

lemma handler_try_headers:
  "handler_try lib event = Some (r, cs) \<Longrightarrow> headers r = json_headers"
  by (auto simp: handler_try_def Let_def split: pyval.splits option.splits if_splits prod.splits)

lemma handler_headers:
  "headers (fst (handler lib event ctx)) = cors_headers \<or>
   headers (fst (handler lib event ctx)) = json_headers"
  by (auto simp: handler_def dest: handler_try_headers split: option.splits)

text \<open>
  Claim C9. Whatever the event and whatever the outcome (preflight, 405, 400, 200, 500),
  the headers of the response of \<open>handler\<close> hold the three cross-origin entries:
  \<^verbatim>\<open>Access-Control-Allow-Origin: *\<close>, \<^verbatim>\<open>Access-Control-Allow-Methods: POST, OPTIONS\<close> and
  \<^verbatim>\<open>Access-Control-Allow-Headers: Content-Type\<close>.
\<close>

theorem handler_cors_always:
  "map_of (headers (fst (handler lib event ctx))) (py ''Access-Control-Allow-Origin'')
     = Some (py ''*'') \<and>
   map_of (headers (fst (handler lib event ctx))) (py ''Access-Control-Allow-Methods'')
     = Some (py ''POST, OPTIONS'') \<and>
   map_of (headers (fst (handler lib event ctx))) (py ''Access-Control-Allow-Headers'')
     = Some (py ''Content-Type'')"
  using handler_headers [of lib event ctx]
  by (auto simp: map_of_cors map_of_json_headers)

section \<open>The result invariant\<close>

lemma invariant_failure: "transcript_result_invariant (failure_result msg v)"
  by (simp add: transcript_result_invariant_def failure_result_def has_key_def)

lemma invariant_success: "transcript_result_invariant (success_result lib v t l)"
  by (simp add: transcript_result_invariant_def success_result_def has_key_def Let_def)

text \<open>
  Claim C7. For every argument and every library, the dict that \<open>get_transcript\<close> returns
  satisfies the TranscriptResult invariant: \<^verbatim>\<open>success\<close> is a boolean, \<^verbatim>\<open>error\<close> is present
  if and only if it is false, and \<^verbatim>\<open>transcript\<close>, \<^verbatim>\<open>language\<close>, \<^verbatim>\<open>wordCount\<close> and
  \<^verbatim>\<open>videoTitle\<close> are present if and only if it is true.
\<close>

theorem get_transcript_invariant:
  "transcript_result_invariant (fst (get_transcript lib youtube_url))"
  by (simp add: get_transcript_def invariant_failure invariant_success
      split: pyval.splits option.splits sum.splits prod.splits)

section \<open>The fallback chain\<close>

lemma manual_loop_none:
  "fetchable (find_manually_created_transcript tlist [l]) = None \<Longrightarrow>
   fst (manual_loop tlist (l # rest)) = fst (manual_loop tlist rest)"
  by (auto simp: fetchable_def split: sum.splits prod.splits)

lemma manual_loop_some:
  "fetchable (find_manually_created_transcript tlist [l]) = Some segs \<Longrightarrow>
   fst (manual_loop tlist (l # rest)) = (Some segs, JStr l)"
  by (auto simp: fetchable_def split: sum.splits prod.splits)

lemma auto_generated_some:
  "fetchable (find_generated_transcript tlist [py ''en'']) = Some segs \<Longrightarrow>
   fst (auto_generated tlist) = Inr (segs, JStr (py ''en (auto-generated)''))"
  by (auto simp: fetchable_def auto_generated_def split: sum.splits prod.splits)

lemma auto_generated_some_calls:
  "fetchable (find_generated_transcript tlist [py ''en'']) = Some segs \<Longrightarrow>
   Enumerate \<notin> set (snd (auto_generated tlist))"
  by (auto simp: fetchable_def auto_generated_def split: sum.splits prod.splits)

lemma auto_generated_none:
  "fetchable (find_generated_transcript tlist [py ''en'']) = None \<Longrightarrow>
   fst (auto_generated tlist) = fst (last_resort tlist)"
  by (auto simp: fetchable_def auto_generated_def split: sum.splits prod.splits)

lemma manual_loop_calls: "Enumerate \<notin> set (snd (manual_loop tlist langs))"
  by (induction langs) (auto split: sum.splits prod.splits)

lemma last_resort_calls: "Enumerate \<in> set (snd (last_resort tlist))"
  by (auto simp: last_resort_def split: sum.splits list.splits)

lemma auto_generated_none_calls:
  "fetchable (find_generated_transcript tlist [py ''en'']) = None \<Longrightarrow>
   Enumerate \<in> set (snd (auto_generated tlist))"
  using last_resort_calls [of tlist]
  by (auto simp: fetchable_def auto_generated_def split: sum.splits prod.splits)

lemma select_no_manual:
  assumes "fetchable (find_manually_created_transcript tlist [py ''en'']) = None"
    and "fetchable (find_manually_created_transcript tlist [py ''en-US'']) = None"
    and "fetchable (find_manually_created_transcript tlist [py ''en-GB'']) = None"
  shows "fst (select_transcript tlist) = fst (auto_generated tlist)"
    and "(Enumerate \<in> set (snd (select_transcript tlist))) = (Enumerate \<in> set (snd (auto_generated tlist)))"
proof -
  have m: "fst (manual_loop tlist [py ''en'', py ''en-US'', py ''en-GB'']) = (None, JNull)"
    using assms by (simp add: manual_loop_none del: manual_loop.simps(2))
  obtain cs where c: "manual_loop tlist [py ''en'', py ''en-US'', py ''en-GB''] = ((None, JNull), cs)"
    using m by (metis prod.collapse)
  have "Enumerate \<notin> set cs"
    using manual_loop_calls [of tlist "[py ''en'', py ''en-US'', py ''en-GB'']"] c by simp
  then show "fst (select_transcript tlist) = fst (auto_generated tlist)"
    and "(Enumerate \<in> set (snd (select_transcript tlist))) = (Enumerate \<in> set (snd (auto_generated tlist)))"
    using c by (auto simp: select_transcript_def split: prod.splits)
qed

lemma select_manual_found:
  assumes "fst (manual_loop tlist [py ''en'', py ''en-US'', py ''en-GB'']) = (Some segs, lang)"
  shows "segs \<noteq> [] \<Longrightarrow> fst (select_transcript tlist) = Inr (segs, lang)"
    and "segs = [] \<Longrightarrow> fst (select_transcript tlist) = fst (auto_generated tlist)"
  using assms by (auto simp: select_transcript_def split: prod.splits)

lemma last_resort_empty:
  "tracks tlist = Inr [] \<Longrightarrow> fst (last_resort tlist) = Inl (py ''No transcripts available'')"
  by (simp add: last_resort_def)

lemma last_resort_first:
  "tracks tlist = Inr (first # others) \<Longrightarrow> fetch first = Inr segs \<Longrightarrow>
   fst (last_resort tlist) = Inr (segs, JStr (language_code first))"
  by (simp add: last_resort_def)

lemma get_transcript_selected:
  assumes "extract_video_id url = Some video_id"
    and "list_transcripts lib video_id = Inr tlist"
  shows "fst (select_transcript tlist) = Inr (segs, lang) \<Longrightarrow>
         fst (get_transcript lib (JStr url)) = success_result lib video_id segs lang"
    and "fst (select_transcript tlist) = Inl e \<Longrightarrow>
         fst (get_transcript lib (JStr url)) =
           failure_result (py ''Could not fetch transcript: '' @ e) (JStr video_id)"
    and "snd (get_transcript lib (JStr url)) = ListTranscripts video_id # snd (select_transcript tlist)"
  using assms by (auto simp: get_transcript_def split: prod.splits sum.splits)

lemma success_result_fields:
  "dict_get (success_result lib video_id segs lang) (py ''success'') = JBool True"
  "dict_get (success_result lib video_id segs lang) (py ''language'') = lang"
  "dict_get (success_result lib video_id segs lang) (py ''transcript'') = JStr (format_transcript lib segs)"
  "dict_get (success_result lib video_id segs lang) (py ''videoId'') = JStr video_id"
  "dict_get (success_result lib video_id segs lang) (py ''wordCount'') =
     JInt (int (length (py_split (format_transcript lib segs))))"
  by (simp_all add: success_result_def dict_get_def dict_get_default_def Let_def)

text \<open>Runs of the sample provider.\<close>

lemma sample_id: "extract_video_id (py ''dQw4w9WgXcQ'') = Some (py ''dQw4w9WgXcQ'')"
  by code_simp

lemma sample_list_transcripts:
  "list_transcripts (sample_library manual generated) video_id = Inr (sample_list manual generated)"
  by (simp add: sample_library_def)

lemma fetchable_sample_manual:
  "fetchable (find_manually_created_transcript (sample_list manual generated) [code]) = map_of manual code"
  by (simp add: fetchable_def sample_list_def sample_track_def split: option.splits)

lemma fetchable_sample_generated:
  "fetchable (find_generated_transcript (sample_list manual generated) [code]) = map_of generated code"
  by (simp add: fetchable_def sample_list_def sample_track_def split: option.splits)

lemma tracks_sample:
  "tracks (sample_list manual generated) =
     Inr (map (\<lambda>(code, segs). sample_track code segs) (manual @ generated))"
  by (simp add: sample_list_def)

text \<open>
  Claim C1, as the source has it. When the listing succeeds, no manual transcript in
  \<^verbatim>\<open>en\<close>, \<^verbatim>\<open>en-US\<close>, \<^verbatim>\<open>en-GB\<close> and no generated English transcript is obtained, and the
  enumeration is empty, \<open>get_transcript\<close> returns \<^verbatim>\<open>success\<close> false, the video id, and the
  error message \<^verbatim>\<open>Could not fetch transcript: No transcripts available\<close>: line 73 puts
  its prefix before the message raised at line 68.
\<close>

theorem no_transcripts_available:
  assumes "extract_video_id url = Some video_id"
    and "list_transcripts lib video_id = Inr tlist"
    and "fetchable (find_manually_created_transcript tlist [py ''en'']) = None"
    and "fetchable (find_manually_created_transcript tlist [py ''en-US'']) = None"
    and "fetchable (find_manually_created_transcript tlist [py ''en-GB'']) = None"
    and "fetchable (find_generated_transcript tlist [py ''en'']) = None"
    and "tracks tlist = Inr []"
  shows "fst (get_transcript lib (JStr url)) =
           [(py ''success'', JBool False),
            (py ''error'', JStr (py ''Could not fetch transcript: No transcripts available'')),
            (py ''videoId'', JStr video_id)]"
proof -
  have "fst (select_transcript tlist) = Inl (py ''No transcripts available'')"
    using assms by (simp add: select_no_manual auto_generated_none last_resort_empty)
  then have "fst (get_transcript lib (JStr url)) =
      failure_result (py ''Could not fetch transcript: '' @ py ''No transcripts available'') (JStr video_id)"
    using assms(1,2) by (rule get_transcript_selected(2) [rotated 2])
  then show ?thesis
    by (simp add: failure_result_def py_def)
qed

theorem no_transcripts_available_witness:
  "fst (get_transcript (sample_library [] []) (JStr (py ''dQw4w9WgXcQ''))) =
     [(py ''success'', JBool False),
      (py ''error'', JStr (py ''Could not fetch transcript: No transcripts available'')),
      (py ''videoId'', JStr (py ''dQw4w9WgXcQ''))]"
  by (rule no_transcripts_available [OF sample_id sample_list_transcripts])
     (simp_all add: fetchable_sample_manual fetchable_sample_generated tracks_sample)

text \<open>
  The message is therefore not exactly \<^verbatim>\<open>No transcripts available\<close>: the sample provider
  without any track meets every condition of claim C1 and gets the prefixed message.
\<close>

theorem no_transcripts_message_counterexample:
  "extract_video_id (py ''dQw4w9WgXcQ'') = Some (py ''dQw4w9WgXcQ'') \<and>
   list_transcripts (sample_library [] []) (py ''dQw4w9WgXcQ'') = Inr (sample_list [] []) \<and>
   fetchable (find_manually_created_transcript (sample_list [] []) [py ''en'']) = None \<and>
   fetchable (find_manually_created_transcript (sample_list [] []) [py ''en-US'']) = None \<and>
   fetchable (find_manually_created_transcript (sample_list [] []) [py ''en-GB'']) = None \<and>
   fetchable (find_generated_transcript (sample_list [] []) [py ''en'']) = None \<and>
   tracks (sample_list [] []) = Inr [] \<and>
   dict_get (fst (get_transcript (sample_library [] []) (JStr (py ''dQw4w9WgXcQ'')))) (py ''success'')
     = JBool False \<and>
   dict_get (fst (get_transcript (sample_library [] []) (JStr (py ''dQw4w9WgXcQ'')))) (py ''error'')
     \<noteq> JStr (py ''No transcripts available'')"
proof -
  have s: "fst (select_transcript (sample_list [] [])) = Inl (py ''No transcripts available'')"
    by (simp add: select_no_manual auto_generated_none last_resort_empty
        fetchable_sample_manual fetchable_sample_generated tracks_sample)
  have r: "fst (get_transcript (sample_library [] []) (JStr (py ''dQw4w9WgXcQ''))) =
      failure_result (py ''Could not fetch transcript: '' @ py ''No transcripts available'')
        (JStr (py ''dQw4w9WgXcQ''))"
    by (rule get_transcript_selected(2) [OF sample_id sample_list_transcripts s])
  have ne: "py ''Could not fetch transcript: '' @ py ''No transcripts available''
      \<noteq> py ''No transcripts available''"
    by (simp add: py_def)
  show ?thesis
    using ne
    by (simp add: r sample_id sample_list_transcripts fetchable_sample_manual
        fetchable_sample_generated tracks_sample failure_result_def dict_get_def
        dict_get_default_def)
qed

text \<open>
  Claim C4. When no manual transcript in \<^verbatim>\<open>en\<close>, \<^verbatim>\<open>en-US\<close>, \<^verbatim>\<open>en-GB\<close> is obtained: if
  the generated English transcript is fetched, the result has \<^verbatim>\<open>success\<close> true, the
  language \<^verbatim>\<open>en (auto-generated)\<close>, the formatted text of that transcript and the video
  id, and the provider is not enumerated; if it is not, the provider is enumerated, and
  when the first enumerated transcript is fetched the result has \<^verbatim>\<open>success\<close> true, the
  \<open>language_code\<close> of that transcript as its language, and its formatted text.
\<close>

theorem auto_generated_then_first_listed:
  assumes "extract_video_id url = Some video_id"
    and "list_transcripts lib video_id = Inr tlist"
    and "fetchable (find_manually_created_transcript tlist [py ''en'']) = None"
    and "fetchable (find_manually_created_transcript tlist [py ''en-US'']) = None"
    and "fetchable (find_manually_created_transcript tlist [py ''en-GB'']) = None"
  shows "(fetchable (find_generated_transcript tlist [py ''en'']) = Some segs \<longrightarrow>
            dict_get (fst (get_transcript lib (JStr url))) (py ''success'') = JBool True \<and>
            dict_get (fst (get_transcript lib (JStr url))) (py ''language'')
              = JStr (py ''en (auto-generated)'') \<and>
            dict_get (fst (get_transcript lib (JStr url))) (py ''transcript'')
              = JStr (format_transcript lib segs) \<and>
            dict_get (fst (get_transcript lib (JStr url))) (py ''videoId'') = JStr video_id \<and>
            Enumerate \<notin> set (snd (get_transcript lib (JStr url)))) \<and>
         (fetchable (find_generated_transcript tlist [py ''en'']) = None \<longrightarrow>
            Enumerate \<in> set (snd (get_transcript lib (JStr url))) \<and>
            (\<forall>first others segs'.
               tracks tlist = Inr (first # others) \<longrightarrow> fetch first = Inr segs' \<longrightarrow>
               dict_get (fst (get_transcript lib (JStr url))) (py ''success'') = JBool True \<and>
               dict_get (fst (get_transcript lib (JStr url))) (py ''language'')
                 = JStr (language_code first) \<and>
               dict_get (fst (get_transcript lib (JStr url))) (py ''transcript'')
                 = JStr (format_transcript lib segs') \<and>
               dict_get (fst (get_transcript lib (JStr url))) (py ''videoId'') = JStr video_id))"
proof -
  note sel = select_no_manual [OF assms(3-5)]
  note gt = get_transcript_selected [OF assms(1,2)]
  have generated:
    "dict_get (fst (get_transcript lib (JStr url))) (py ''success'') = JBool True \<and>
     dict_get (fst (get_transcript lib (JStr url))) (py ''language'')
       = JStr (py ''en (auto-generated)'') \<and>
     dict_get (fst (get_transcript lib (JStr url))) (py ''transcript'')
       = JStr (format_transcript lib segs) \<and>
     dict_get (fst (get_transcript lib (JStr url))) (py ''videoId'') = JStr video_id \<and>
     Enumerate \<notin> set (snd (get_transcript lib (JStr url)))"
    if a: "fetchable (find_generated_transcript tlist [py ''en'']) = Some segs"
  proof -
    from a have "fst (select_transcript tlist) = Inr (segs, JStr (py ''en (auto-generated)''))"
      by (simp add: sel(1) auto_generated_some)
    then have "fst (get_transcript lib (JStr url)) =
        success_result lib video_id segs (JStr (py ''en (auto-generated)''))"
      by (rule gt(1))
    moreover have "Enumerate \<notin> set (snd (get_transcript lib (JStr url)))"
      using a by (simp add: gt(3) sel(2) auto_generated_some_calls)
    ultimately show ?thesis
      by (simp add: success_result_fields)
  qed
  have enumerated: "Enumerate \<in> set (snd (get_transcript lib (JStr url)))"
    if a: "fetchable (find_generated_transcript tlist [py ''en'']) = None"
    using a by (simp add: gt(3) sel(2) auto_generated_none_calls)
  have listed:
    "dict_get (fst (get_transcript lib (JStr url))) (py ''success'') = JBool True \<and>
     dict_get (fst (get_transcript lib (JStr url))) (py ''language'')
       = JStr (language_code first) \<and>
     dict_get (fst (get_transcript lib (JStr url))) (py ''transcript'')
       = JStr (format_transcript lib segs') \<and>
     dict_get (fst (get_transcript lib (JStr url))) (py ''videoId'') = JStr video_id"
    if a: "fetchable (find_generated_transcript tlist [py ''en'']) = None"
      and t: "tracks tlist = Inr (first # others)" and f: "fetch first = Inr segs'"
    for first others segs'
  proof -
    from a t f have "fst (select_transcript tlist) = Inr (segs', JStr (language_code first))"
      by (simp add: sel(1) auto_generated_none last_resort_first)
    then have "fst (get_transcript lib (JStr url)) =
        success_result lib video_id segs' (JStr (language_code first))"
      by (rule gt(1))
    then show ?thesis
      by (simp add: success_result_fields)
  qed
  from generated enumerated listed show ?thesis
    by blast
qed

theorem auto_generated_then_first_listed_witness:
  "(dict_get (fst (get_transcript (sample_library [] [(py ''en'', [py ''hello world''])])
          (JStr (py ''dQw4w9WgXcQ'')))) (py ''success'') = JBool True \<and>
    dict_get (fst (get_transcript (sample_library [] [(py ''en'', [py ''hello world''])])
          (JStr (py ''dQw4w9WgXcQ'')))) (py ''language'') = JStr (py ''en (auto-generated)'') \<and>
    dict_get (fst (get_transcript (sample_library [] [(py ''en'', [py ''hello world''])])
          (JStr (py ''dQw4w9WgXcQ'')))) (py ''transcript'') = JStr (py ''hello world'') \<and>
    Enumerate \<notin> set (snd (get_transcript (sample_library [] [(py ''en'', [py ''hello world''])])
          (JStr (py ''dQw4w9WgXcQ''))))) \<and>
   (Enumerate \<in> set (snd (get_transcript (sample_library [(py ''fr'', [py ''bonjour''])] [])
          (JStr (py ''dQw4w9WgXcQ'')))) \<and>
    dict_get (fst (get_transcript (sample_library [(py ''fr'', [py ''bonjour''])] [])
          (JStr (py ''dQw4w9WgXcQ'')))) (py ''success'') = JBool True \<and>
    dict_get (fst (get_transcript (sample_library [(py ''fr'', [py ''bonjour''])] [])
          (JStr (py ''dQw4w9WgXcQ'')))) (py ''language'') = JStr (py ''fr'') \<and>
    dict_get (fst (get_transcript (sample_library [(py ''fr'', [py ''bonjour''])] [])
          (JStr (py ''dQw4w9WgXcQ'')))) (py ''transcript'') = JStr (py ''bonjour''))"
proof -
  have none: "fetchable (find_manually_created_transcript (sample_list [] generated) [code]) = None"
    for generated code
    by (simp add: fetchable_sample_manual)
  have auto: "fetchable (find_generated_transcript
      (sample_list [] [(py ''en'', [py ''hello world''])]) [py ''en'']) = Some [py ''hello world'']"
    by (simp add: fetchable_sample_generated)
  have fmt: "format_transcript (sample_library manual generated) [line] = line"
    for manual generated line
    by (simp add: sample_library_def)
  note en = auto_generated_then_first_listed [OF sample_id sample_list_transcripts none none none,
      where segs = "[py ''hello world'']"]
  have fr: "fetchable (find_manually_created_transcript
        (sample_list [(py ''fr'', [py ''bonjour''])] []) [py ''en'']) = None"
    "fetchable (find_manually_created_transcript
        (sample_list [(py ''fr'', [py ''bonjour''])] []) [py ''en-US'']) = None"
    "fetchable (find_manually_created_transcript
        (sample_list [(py ''fr'', [py ''bonjour''])] []) [py ''en-GB'']) = None"
    by (simp_all add: fetchable_sample_manual)
  have no_auto: "fetchable (find_generated_transcript
      (sample_list [(py ''fr'', [py ''bonjour''])] []) [py ''en'']) = None"
    by (simp add: fetchable_sample_generated)
  have listed: "tracks (sample_list [(py ''fr'', [py ''bonjour''])] []) =
      Inr [sample_track (py ''fr'') [py ''bonjour'']]"
    by (simp add: tracks_sample)
  have fetched: "fetch (sample_track (py ''fr'') [py ''bonjour'']) = Inr [py ''bonjour'']"
    "language_code (sample_track (py ''fr'') [py ''bonjour'']) = py ''fr''"
    by (simp_all add: sample_track_def)
  note other = auto_generated_then_first_listed [OF sample_id sample_list_transcripts fr]
  from en [of "[(py ''en'', [py ''hello world''])]"] auto
  have first_half:
    "dict_get (fst (get_transcript (sample_library [] [(py ''en'', [py ''hello world''])])
          (JStr (py ''dQw4w9WgXcQ'')))) (py ''success'') = JBool True \<and>
     dict_get (fst (get_transcript (sample_library [] [(py ''en'', [py ''hello world''])])
          (JStr (py ''dQw4w9WgXcQ'')))) (py ''language'') = JStr (py ''en (auto-generated)'') \<and>
     dict_get (fst (get_transcript (sample_library [] [(py ''en'', [py ''hello world''])])
          (JStr (py ''dQw4w9WgXcQ'')))) (py ''transcript'') = JStr (py ''hello world'') \<and>
     Enumerate \<notin> set (snd (get_transcript (sample_library [] [(py ''en'', [py ''hello world''])])
          (JStr (py ''dQw4w9WgXcQ''))))"
    by (simp add: fmt)
  from other no_auto listed fetched
  have second_half:
    "Enumerate \<in> set (snd (get_transcript (sample_library [(py ''fr'', [py ''bonjour''])] [])
          (JStr (py ''dQw4w9WgXcQ'')))) \<and>
     dict_get (fst (get_transcript (sample_library [(py ''fr'', [py ''bonjour''])] [])
          (JStr (py ''dQw4w9WgXcQ'')))) (py ''success'') = JBool True \<and>
     dict_get (fst (get_transcript (sample_library [(py ''fr'', [py ''bonjour''])] [])
          (JStr (py ''dQw4w9WgXcQ'')))) (py ''language'') = JStr (py ''fr'') \<and>
     dict_get (fst (get_transcript (sample_library [(py ''fr'', [py ''bonjour''])] [])
          (JStr (py ''dQw4w9WgXcQ'')))) (py ''transcript'') = JStr (py ''bonjour'')"
    by (simp add: fmt)
  from first_half second_half show ?thesis
    by blast
qed

text \<open>
  The manual transcripts: with none obtained in \<^verbatim>\<open>en\<close> and \<^verbatim>\<open>en-US\<close>, a manual
  \<^verbatim>\<open>en-GB\<close> transcript that is fetched with at least one segment is returned with the
  language \<^verbatim>\<open>en-GB\<close>.
\<close>

lemma manual_en_GB_nonempty:
  assumes "extract_video_id url = Some video_id"
    and "list_transcripts lib video_id = Inr tlist"
    and "fetchable (find_manually_created_transcript tlist [py ''en'']) = None"
    and "fetchable (find_manually_created_transcript tlist [py ''en-US'']) = None"
    and "fetchable (find_manually_created_transcript tlist [py ''en-GB'']) = Some segs"
    and "segs \<noteq> []"
  shows "fst (get_transcript lib (JStr url)) = success_result lib video_id segs (JStr (py ''en-GB''))"
proof -
  have "fst (manual_loop tlist [py ''en'', py ''en-US'', py ''en-GB'']) = (Some segs, JStr (py ''en-GB''))"
    using assms(3-5) by (simp add: manual_loop_none manual_loop_some del: manual_loop.simps(2))
  then have "fst (select_transcript tlist) = Inr (segs, JStr (py ''en-GB''))"
    using assms(6) by (simp add: select_manual_found(1))
  then show ?thesis
    by (rule get_transcript_selected(1) [OF assms(1,2)])
qed

text \<open>
  Claim C3 at a provider whose only manual transcript is an \<^verbatim>\<open>en-GB\<close> one that is fetched
  without segments, and that also has a generated English transcript. The loop stops at
  \<^verbatim>\<open>en-GB\<close>, but \<^verbatim>\<open>not transcript\<close> at line 54 holds for the empty transcript as it does
  for \<^verbatim>\<open>None\<close>, so the result is tagged \<^verbatim>\<open>en (auto-generated)\<close>, not \<^verbatim>\<open>en-GB\<close>.
\<close>

theorem empty_manual_transcript_retagged:
  "fetchable (find_manually_created_transcript
      (sample_list [(py ''en-GB'', [])] [(py ''en'', [py ''hello world''])]) [py ''en'']) = None \<and>
   fetchable (find_manually_created_transcript
      (sample_list [(py ''en-GB'', [])] [(py ''en'', [py ''hello world''])]) [py ''en-US'']) = None \<and>
   fetchable (find_manually_created_transcript
      (sample_list [(py ''en-GB'', [])] [(py ''en'', [py ''hello world''])]) [py ''en-GB'']) = Some [] \<and>
   dict_get (fst (get_transcript
      (sample_library [(py ''en-GB'', [])] [(py ''en'', [py ''hello world''])])
      (JStr (py ''dQw4w9WgXcQ'')))) (py ''success'') = JBool True \<and>
   dict_get (fst (get_transcript
      (sample_library [(py ''en-GB'', [])] [(py ''en'', [py ''hello world''])])
      (JStr (py ''dQw4w9WgXcQ'')))) (py ''language'') = JStr (py ''en (auto-generated)'')"
proof -
  let ?tl = "sample_list [(py ''en-GB'', [])] [(py ''en'', [py ''hello world''])]"
  have "fst (manual_loop ?tl [py ''en'', py ''en-US'', py ''en-GB'']) = (Some [], JStr (py ''en-GB''))"
    by (simp add: manual_loop_none manual_loop_some fetchable_sample_manual
        del: manual_loop.simps(2))
  then have "fst (select_transcript ?tl) = fst (auto_generated ?tl)"
    by (simp add: select_manual_found(2))
  then have "fst (select_transcript ?tl) = Inr ([py ''hello world''], JStr (py ''en (auto-generated)''))"
    by (simp add: auto_generated_some fetchable_sample_generated)
  then have "fst (get_transcript
      (sample_library [(py ''en-GB'', [])] [(py ''en'', [py ''hello world''])])
      (JStr (py ''dQw4w9WgXcQ''))) =
      success_result (sample_library [(py ''en-GB'', [])] [(py ''en'', [py ''hello world''])])
        (py ''dQw4w9WgXcQ'') [py ''hello world''] (JStr (py ''en (auto-generated)''))"
    by (rule get_transcript_selected(1) [OF sample_id sample_list_transcripts])
  then show ?thesis
    by (simp add: success_result_fields fetchable_sample_manual)
qed

section \<open>The request handler\<close>




lemma handler_500_no_call:
  "statusCode (fst (handler lib event ctx)) = 500 \<Longrightarrow> snd (handler lib event ctx) = []"
  by (auto simp: handler_def handler_try_def Let_def
      split: if_splits option.splits pyval.splits prod.splits)

text \<open>
  Claim C10. A POST request whose body is a string that \<^verbatim>\<open>json.loads\<close> rejects gets
  status 500 with the payload \<^verbatim>\<open>{"error": "Internal server error"}\<close>, not a 400, and
  \<open>get_transcript\<close> is not called. Moreover no run that called \<open>get_transcript\<close> ends in
  the 500 response: \<open>get_transcript\<close> returns a result dict for every argument, so the
  response after it is a 200 or a 400.
\<close>

theorem malformed_json_is_500:
  assumes "dict_get event (py ''httpMethod'') = JStr (py ''POST'')"
    and "dict_get_default event (py ''body'') (JStr (py ''{}'')) = JStr raw"
    and "json_loads lib raw = None"
  shows "handler lib event ctx =
           (\<lparr>statusCode = 500, headers = json_headers,
             body = json_dumps lib (JObj [(py ''error'', JStr (py ''Internal server error''))])\<rparr>,
            []) \<and>
         (\<forall>event'. statusCode (fst (handler lib event' ctx)) = 500 \<longrightarrow>
                   snd (handler lib event' ctx) = [])"
proof
  show "handler lib event ctx =
           (\<lparr>statusCode = 500, headers = json_headers,
             body = json_dumps lib (JObj [(py ''error'', JStr (py ''Internal server error''))])\<rparr>,
            [])"
    using assms by (simp add: handler_def handler_try_def)
  show "\<forall>event'. statusCode (fst (handler lib event' ctx)) = 500 \<longrightarrow>
                   snd (handler lib event' ctx) = []"
    by (simp add: handler_500_no_call)
qed

theorem malformed_json_is_500_witness:
  "handler (sample_library [] [])
     [(py ''httpMethod'', JStr (py ''POST'')), (py ''body'', JStr (py ''not json''))] () =
     (\<lparr>statusCode = 500, headers = json_headers,
       body = json_dumps (sample_library [] [])
         (JObj [(py ''error'', JStr (py ''Internal server error''))])\<rparr>,
      []) \<and>
   (statusCode (fst (handler (sample_library [] [])
     [(py ''httpMethod'', JStr (py ''POST'')), (py ''body'', JStr (py ''not json''))] ())) = 500 \<and>
    snd (handler (sample_library [] [])
     [(py ''httpMethod'', JStr (py ''POST'')), (py ''body'', JStr (py ''not json''))] ()) = [])"
proof -
  have "dict_get [(py ''httpMethod'', JStr (py ''POST'')), (py ''body'', JStr (py ''not json''))]
      (py ''httpMethod'') = JStr (py ''POST'')"
    by (simp add: dict_get_def dict_get_default_def)
  moreover have "dict_get_default
      [(py ''httpMethod'', JStr (py ''POST'')), (py ''body'', JStr (py ''not json''))]
      (py ''body'') (JStr (py ''{}'')) = JStr (py ''not json'')"
    by (simp add: dict_get_default_def)
  moreover have "json_loads (sample_library [] []) (py ''not json'') = None"
    by (simp add: sample_library_def)
  ultimately have "handler (sample_library [] [])
     [(py ''httpMethod'', JStr (py ''POST'')), (py ''body'', JStr (py ''not json''))] () =
     (\<lparr>statusCode = 500, headers = json_headers,
       body = json_dumps (sample_library [] [])
         (JObj [(py ''error'', JStr (py ''Internal server error''))])\<rparr>,
      [])"
    using malformed_json_is_500 [of _ "py ''not json''" "sample_library [] []" "()"] by blast
  then show ?thesis by simp
qed

section \<open>The word count\<close>

declare py_split.simps [simp del]

lemma count_starts_skip_spaces:
  "count_starts True s = count_starts True (dropWhile is_space s)"
  by (induction s) auto

lemma count_starts_skip_word:
  "count_starts False s = count_starts True (dropWhile (\<lambda>x. \<not> is_space x) s)"
  by (induction s) auto

lemma py_split_Nil: "dropWhile is_space s = [] \<Longrightarrow> py_split s = []"
  by (subst py_split.simps) (simp del: dropWhile_eq_Nil_conv)

lemma py_split_Cons:
  "dropWhile is_space s = c # cs \<Longrightarrow>
   py_split s = (c # takeWhile (\<lambda>x. \<not> is_space x) cs) # py_split (dropWhile (\<lambda>x. \<not> is_space x) cs)"
  by (subst py_split.simps) simp

lemma length_py_split: "length (py_split s) = count_starts True s"
proof (induction s rule: py_split.induct)
  case (1 s)
  show ?case
  proof (cases "dropWhile is_space s")
    case Nil
    then have "count_starts True s = 0"
      using count_starts_skip_spaces [of s] by (simp del: dropWhile_eq_Nil_conv)
    with Nil show ?thesis
      by (simp add: py_split_Nil)
  next
    case (Cons c cs)
    then have c: "\<not> is_space c"
      by (metis hd_dropWhile list.sel(1) list.distinct(1))
    have "count_starts True s = count_starts True (c # cs)"
      using count_starts_skip_spaces [of s] Cons by simp
    also have "\<dots> = 1 + count_starts False cs"
      using c by simp
    also have "\<dots> = 1 + count_starts True (dropWhile (\<lambda>x. \<not> is_space x) cs)"
      using count_starts_skip_word [of cs] by simp
    also have "\<dots> = 1 + length (py_split (dropWhile (\<lambda>x. \<not> is_space x) cs))"
      using "1.IH" [OF Cons] by simp
    finally show ?thesis
      using Cons by (simp add: py_split_Cons)
  qed
qed

lemma filter_upt_Suc:
  "length (filter P [0..<Suc n]) = (if P 0 then 1 else 0) + length (filter (\<lambda>i. P (Suc i)) [0..<n])"
proof -
  have "[0..<Suc n] = 0 # map Suc [0..<n]"
    by (simp add: upt_conv_Cons map_Suc_upt del: upt_Suc)
  then show ?thesis
    by (simp add: filter_map comp_def del: upt_Suc)
qed

lemma count_starts_positions:
  "count_starts prev s =
     length (filter (\<lambda>i. \<not> is_space (s ! i) \<and> (if i = 0 then prev else is_space (s ! (i - 1))))
       [0..<length s])"
proof (induction s arbitrary: prev)
  case Nil
  show ?case by simp
next
  case (Cons c cs)
  have "(\<lambda>i. \<not> is_space ((c # cs) ! Suc i) \<and>
            (if Suc i = 0 then prev else is_space ((c # cs) ! (Suc i - 1)))) =
        (\<lambda>i. \<not> is_space (cs ! i) \<and> (if i = 0 then is_space c else is_space (cs ! (i - 1))))"
    by (auto simp: fun_eq_iff nth_Cons split: nat.splits)
  then show ?case
    using Cons.IH [of "is_space c"]
    by (simp add: filter_upt_Suc del: upt_Suc)
qed

lemma token_count_eq: "token_count s = count_starts True s"
proof -
  have "token_start s = (\<lambda>i. \<not> is_space (s ! i) \<and> (if i = 0 then True else is_space (s ! (i - 1))))"
    by (auto simp: fun_eq_iff token_start_def)
  then show ?thesis
    by (simp add: token_count_def count_starts_positions)
qed

lemma word_count_spec: "length (py_split s) = token_count s"
  by (simp add: length_py_split token_count_eq)

lemma get_transcript_cases:
  "(\<exists>msg v. fst (get_transcript lib youtube_url) = failure_result msg v) \<or>
   (\<exists>video_id segs lang. fst (get_transcript lib youtube_url) = success_result lib video_id segs lang)"
  by (simp add: get_transcript_def split: pyval.splits option.splits sum.splits prod.splits)
     blast+

lemma failure_result_success:
  "dict_get (failure_result msg v) (py ''success'') = JBool False"
  by (simp add: failure_result_def dict_get_def dict_get_default_def)

text \<open>
  Claim C6. In every successful result of \<open>get_transcript\<close> the entry \<^verbatim>\<open>transcript\<close> is a
  text and the entry \<^verbatim>\<open>wordCount\<close> is the number of whitespace-delimited tokens of that
  text: the number of positions where a non-whitespace character stands first or after a
  whitespace character.
\<close>

theorem word_count_is_token_count:
  assumes "dict_get (fst (get_transcript lib youtube_url)) (py ''success'') = JBool True"
  shows "\<exists>flat. dict_get (fst (get_transcript lib youtube_url)) (py ''transcript'') = JStr flat \<and>
           dict_get (fst (get_transcript lib youtube_url)) (py ''wordCount'')
             = JInt (int (token_count flat))"
proof -
  from get_transcript_cases [of lib youtube_url] assms
  obtain video_id segs lang where
    r: "fst (get_transcript lib youtube_url) = success_result lib video_id segs lang"
    by (auto simp: failure_result_success)
  show ?thesis
    unfolding r by (simp add: success_result_fields word_count_spec)
qed

lemma three_tokens: "token_count (py ''hello world foo'') = 3"
  by (simp add: word_count_spec [symmetric] py_split_Cons py_split_Nil py_def is_space_def)

theorem word_count_is_token_count_witness:
  "dict_get (fst (get_transcript (sample_library [] [(py ''en'', [py ''hello world foo''])])
      (JStr (py ''dQw4w9WgXcQ'')))) (py ''success'') = JBool True \<and>
   dict_get (fst (get_transcript (sample_library [] [(py ''en'', [py ''hello world foo''])])
      (JStr (py ''dQw4w9WgXcQ'')))) (py ''transcript'') = JStr (py ''hello world foo'') \<and>
   dict_get (fst (get_transcript (sample_library [] [(py ''en'', [py ''hello world foo''])])
      (JStr (py ''dQw4w9WgXcQ'')))) (py ''wordCount'') = JInt 3"
proof -
  let ?lib = "sample_library [] [(py ''en'', [py ''hello world foo''])]"
  let ?tl = "sample_list [] [(py ''en'', [py ''hello world foo''])]"
  let ?r = "fst (get_transcript ?lib (JStr (py ''dQw4w9WgXcQ'')))"
  have "fst (select_transcript ?tl) = Inr ([py ''hello world foo''], JStr (py ''en (auto-generated)''))"
    by (simp add: select_no_manual auto_generated_some fetchable_sample_manual
        fetchable_sample_generated)
  then have "?r = success_result ?lib (py ''dQw4w9WgXcQ'') [py ''hello world foo'']
      (JStr (py ''en (auto-generated)''))"
    by (rule get_transcript_selected(1) [OF sample_id sample_list_transcripts])
  then have s: "dict_get ?r (py ''success'') = JBool True"
    and t: "dict_get ?r (py ''transcript'') = JStr (py ''hello world foo'')"
    by (simp_all add: success_result_fields sample_library_def)
  from word_count_is_token_count [OF s] t
  have "dict_get ?r (py ''wordCount'') = JInt (int (token_count (py ''hello world foo'')))"
    by auto
  with s t show ?thesis
    by (simp add: three_tokens)
qed

section \<open>The video id\<close>

lemma match_shapes_Cons:
  "match_shapes (p # ps) s =
     (if shape_matches p s
      then Some \<lparr>group0 = p @ take 11 (drop (length p) s), groups = [take 11 (drop (length p) s)]\<rparr>
      else match_shapes ps s)"
  unfolding shape_matches_def match_shapes.simps Let_def ..

lemma shape_matches_iff:
  "shape_matches p s \<longleftrightarrow> (\<exists>tok. length tok = 11 \<and> list_all allowed tok \<and> prefix (p @ tok) s)"
proof
  assume a: "shape_matches p s"
  then obtain r where s: "s = p @ r"
    by (auto simp: shape_matches_def prefix_def)
  have "prefix (p @ take 11 (drop (length p) s)) s"
    by (subst (2) s) (simp add: s take_is_prefix)
  with a show "\<exists>tok. length tok = 11 \<and> list_all allowed tok \<and> prefix (p @ tok) s"
    unfolding shape_matches_def by blast
next
  assume "\<exists>tok. length tok = 11 \<and> list_all allowed tok \<and> prefix (p @ tok) s"
  then obtain tok r where t: "length tok = 11" "list_all allowed tok" "s = (p @ tok) @ r"
    by (auto simp: prefix_def)
  then have "take 11 (drop (length p) s) = tok"
    by simp
  with t show "shape_matches p s"
    by (simp add: shape_matches_def)
qed

lemma shape_matches_token:
  "shape_matches p s \<Longrightarrow> length tok = 11 \<Longrightarrow> prefix (p @ tok) s \<Longrightarrow>
   take 11 (drop (length p) s) = tok"
  by (auto simp: prefix_def)

lemma match_shapes_Some:
  "match_shapes ps s = Some m \<Longrightarrow>
   \<exists>p. p \<in> set ps \<and> shape_matches p s \<and> groups m = [take 11 (drop (length p) s)]"
proof (induction ps)
  case Nil
  then show ?case by simp
next
  case (Cons p ps)
  show ?case
  proof (cases "shape_matches p s")
    case True
    then have "groups m = [take 11 (drop (length p) s)]"
      using Cons.prems by (auto simp: match_shapes_Cons simp del: match_shapes.simps)
    with True show ?thesis
      by (intro exI [of _ p]) simp
  next
    case False
    then have "match_shapes ps s = Some m"
      using Cons.prems by (simp add: match_shapes_Cons del: match_shapes.simps)
    from Cons.IH [OF this] show ?thesis
      by auto
  qed
qed

lemma match_shapes_complete:
  "p \<in> set ps \<Longrightarrow> shape_matches p s \<Longrightarrow> match_shapes ps s \<noteq> None"
  by (induction ps) (auto simp: match_shapes_Cons simp del: match_shapes.simps)

lemma re_search_Some:
  "re_search m s = Some r \<Longrightarrow> \<exists>pre rest. s = pre @ rest \<and> m rest = Some r"
proof (induction s)
  case Nil
  then show ?case by simp
next
  case (Cons c cs)
  show ?case
  proof (cases "m (c # cs)")
    case None
    then have "re_search m cs = Some r"
      using Cons.prems by simp
    from Cons.IH [OF this] obtain pre rest where "cs = pre @ rest" "m rest = Some r"
      by blast
    then have "c # cs = (c # pre) @ rest \<and> m rest = Some r"
      by simp
    then show ?thesis by blast
  next
    case (Some a)
    then have "c # cs = [] @ (c # cs) \<and> m (c # cs) = Some r"
      using Cons.prems by simp
    then show ?thesis by blast
  qed
qed

lemma re_search_leftmost:
  "m rest \<noteq> None \<Longrightarrow>
   \<exists>pre1 pre2 r. pre = pre1 @ pre2 \<and> re_search m (pre @ rest) = Some r \<and> m (pre2 @ rest) = Some r"
proof (induction pre)
  case Nil
  then obtain r where "m rest = Some r" by auto
  moreover from this have "re_search m rest = Some r"
    by (cases rest) simp_all
  ultimately show ?case by simp
next
  case (Cons c pre)
  show ?case
  proof (cases "m (c # pre @ rest)")
    case None
    from Cons.IH [OF Cons.prems] obtain pre1 pre2 r where
      "pre = pre1 @ pre2" "re_search m (pre @ rest) = Some r" "m (pre2 @ rest) = Some r"
      by blast
    then have "c # pre = (c # pre1) @ pre2 \<and> re_search m ((c # pre) @ rest) = Some r \<and>
        m (pre2 @ rest) = Some r"
      using None by simp
    then show ?thesis by blast
  next
    case (Some r)
    then have "c # pre = [] @ (c # pre) \<and> re_search m ((c # pre) @ rest) = Some r \<and>
        m ((c # pre) @ rest) = Some r"
      by simp
    then show ?thesis by blast
  qed
qed

lemma re_search_None:
  "re_search m (pre @ rest) = None \<Longrightarrow> m rest = None"
  using re_search_leftmost [of m rest pre] by fastforce










text \<open>An address with text before the shape and after the id.\<close>

lemma sample_watch_url:
  "extract_video_id (py ''https://www.youtube.com/watch?v=dQw4w9WgXcQ&t=1'') =
     Some (py ''dQw4w9WgXcQ'')"
  by code_simp

section \<open>Inputs without a video id\<close>

lemma contains_url_shape_suffix:
  "contains_url_shape url \<longleftrightarrow>
     (\<exists>s sh. suffix s url \<and> sh \<in> set url_shapes \<and> shape_matches sh s)"
  by (auto simp: contains_url_shape_def list_ex_iff)

lemma contains_url_shape_iff:
  "contains_url_shape url \<longleftrightarrow>
     (\<exists>pre sh tok rest. url = pre @ sh @ tok @ rest \<and> sh \<in> set url_shapes \<and>
        length tok = 11 \<and> list_all allowed tok)"
proof
  assume "contains_url_shape url"
  then obtain s sh where s: "suffix s url" and sh: "sh \<in> set url_shapes" and m: "shape_matches sh s"
    unfolding contains_url_shape_suffix by blast
  from s obtain pre where u: "url = pre @ s"
    unfolding suffix_def by blast
  from m obtain tok where t: "length tok = 11" "list_all allowed tok" "prefix (sh @ tok) s"
    unfolding shape_matches_iff by blast
  from t(3) obtain rest where "s = (sh @ tok) @ rest"
    unfolding prefix_def by blast
  with u have "url = pre @ sh @ tok @ rest"
    by simp
  with sh t(1,2) show "\<exists>pre sh tok rest. url = pre @ sh @ tok @ rest \<and> sh \<in> set url_shapes \<and>
        length tok = 11 \<and> list_all allowed tok"
    by blast
next
  assume "\<exists>pre sh tok rest. url = pre @ sh @ tok @ rest \<and> sh \<in> set url_shapes \<and>
        length tok = 11 \<and> list_all allowed tok"
  then obtain pre sh tok rest where
    u: "url = pre @ sh @ tok @ rest" and sh: "sh \<in> set url_shapes"
    and t: "length tok = 11" "list_all allowed tok"
    by blast
  have "prefix (sh @ tok) (sh @ tok @ rest)"
    by simp
  with t have "shape_matches sh (sh @ tok @ rest)"
    unfolding shape_matches_iff by blast
  moreover have "suffix (sh @ tok @ rest) url"
    unfolding u suffix_def by blast
  ultimately show "contains_url_shape url"
    unfolding contains_url_shape_suffix using sh by blast
qed

lemma re_search_shapes_None_iff:
  "re_search (match_shapes url_shapes) url = None \<longleftrightarrow> \<not> contains_url_shape url"
proof
  assume n: "re_search (match_shapes url_shapes) url = None"
  show "\<not> contains_url_shape url"
  proof
    assume "contains_url_shape url"
    then obtain s sh where s: "suffix s url" and sh: "sh \<in> set url_shapes"
      and m: "shape_matches sh s"
      unfolding contains_url_shape_suffix by blast
    from s obtain pre where u: "url = pre @ s"
      unfolding suffix_def by blast
    from sh m have "match_shapes url_shapes s \<noteq> None"
      by (rule match_shapes_complete)
    moreover from n have "match_shapes url_shapes s = None"
      unfolding u by (rule re_search_None)
    ultimately show False
      by simp
  qed
next
  assume c: "\<not> contains_url_shape url"
  show "re_search (match_shapes url_shapes) url = None"
  proof (rule ccontr)
    assume "re_search (match_shapes url_shapes) url \<noteq> None"
    then obtain r where "re_search (match_shapes url_shapes) url = Some r"
      by auto
    from re_search_Some [OF this] obtain pre rest where
      u: "url = pre @ rest" and m: "match_shapes url_shapes rest = Some r"
      by blast
    from match_shapes_Some [OF m] obtain p where p: "p \<in> set url_shapes" "shape_matches p rest"
      by blast
    have "suffix rest url"
      unfolding u suffix_def by blast
    with p have "contains_url_shape url"
      unfolding contains_url_shape_suffix by blast
    with c show False
      by simp
  qed
qed

lemma bare_id_iff:
  "bare_id url \<longleftrightarrow>
     length (take 11 url) = 11 \<and> list_all allowed (take 11 url) \<and> drop 11 url = []"
proof
  assume "bare_id url"
  then have "length url = 11" and "list_all allowed url"
    unfolding bare_id_def by blast+
  then show "length (take 11 url) = 11 \<and> list_all allowed (take 11 url) \<and> drop 11 url = []"
    by simp
next
  assume r: "length (take 11 url) = 11 \<and> list_all allowed (take 11 url) \<and> drop 11 url = []"
  then have "min (length url) 11 = 11" and "length url \<le> 11"
    by simp_all
  then have "length url = 11"
    by linarith
  then have "take 11 url = url"
    by simp
  with r \<open>length url = 11\<close> show "bare_id url"
    unfolding bare_id_def by simp
qed

lemma bare_id_newline_iff:
  "(\<exists>tok. url = tok @ [10] \<and> bare_id tok) \<longleftrightarrow>
     length (take 11 url) = 11 \<and> list_all allowed (take 11 url) \<and> drop 11 url = [10]"
proof
  assume "\<exists>tok. url = tok @ [10] \<and> bare_id tok"
  then obtain tok where u: "url = tok @ [10]" and "length tok = 11" and "list_all allowed tok"
    unfolding bare_id_def by blast
  then show "length (take 11 url) = 11 \<and> list_all allowed (take 11 url) \<and> drop 11 url = [10]"
    by simp
next
  assume r: "length (take 11 url) = 11 \<and> list_all allowed (take 11 url) \<and> drop 11 url = [10]"
  have "url = take 11 url @ drop 11 url"
    by simp
  with r have "url = take 11 url @ [10]"
    by simp
  moreover from r have "bare_id (take 11 url)"
    unfolding bare_id_def by blast
  ultimately show "\<exists>tok. url = tok @ [10] \<and> bare_id tok"
    by blast
qed

lemma if_Some_None: "((if c then Some x else None) = None) = (\<not> c)"
  by simp

lemma search_direct_None_iff:
  "search_direct url = None \<longleftrightarrow> \<not> bare_id url \<and> \<not> (\<exists>tok. url = tok @ [10] \<and> bare_id tok)"
proof -
  have "search_direct url = None \<longleftrightarrow>
      \<not> (length (take 11 url) = 11 \<and> list_all allowed (take 11 url) \<and>
         (drop 11 url = [] \<or> drop 11 url = [10]))"
    unfolding search_direct_def Let_def by (rule if_Some_None)
  then show ?thesis
    using bare_id_iff [of url] bare_id_newline_iff [of url] by blast
qed

text \<open>
  The inputs for which \<open>extract_video_id\<close> returns \<^verbatim>\<open>None\<close>: those that contain no URL shape
  followed by eleven characters of the alphabet, are no bare id, and are no bare id
  followed by one newline. For them \<open>get_transcript\<close> returns the fixed failure without a
  call of the provider.
\<close>

lemma extract_video_id_None_iff:
  "extract_video_id url = None \<longleftrightarrow>
     \<not> contains_url_shape url \<and> \<not> bare_id url \<and> \<not> (\<exists>tok. url = tok @ [10] \<and> bare_id tok)"
proof -
  have "extract_video_id url = None \<longleftrightarrow>
      re_search (match_shapes url_shapes) url = None \<and> search_direct url = None"
    by (auto simp: extract_video_id_def split: option.splits)
  then show ?thesis
    by (simp add: re_search_shapes_None_iff search_direct_None_iff)
qed

lemma invalid_input_rejected:
  assumes "\<not> contains_url_shape url" and "\<not> bare_id url"
    and "\<not> (\<exists>tok. url = tok @ [10] \<and> bare_id tok)"
  shows "get_transcript lib (JStr url) =
           ([(py ''success'', JBool False),
             (py ''error'', JStr (py ''Invalid YouTube URL or video ID'')),
             (py ''videoId'', JNull)], [])"
proof -
  from assms have "extract_video_id url = None"
    by (simp add: extract_video_id_None_iff)
  then show ?thesis
    by (simp add: get_transcript_def failure_result_def)
qed


text \<open>
  Claim C2 at the input that is the eleven characters \<^verbatim>\<open>dQw4w9WgXcQ\<close> followed by a newline.
  It has twelve characters, so it is not a bare id, and it contains no URL shape; but \<^verbatim>\<open>$\<close>
  in the second pattern also matches before a newline that ends the text, so
  \<open>extract_video_id\<close> returns the first eleven characters, and \<open>get_transcript\<close> asks the
  provider for that video instead of returning \<^verbatim>\<open>Invalid YouTube URL or video ID\<close>.
\<close>

theorem trailing_newline_accepted:
  "length (py ''dQw4w9WgXcQ'' @ [10]) = 12 \<and>
   \<not> contains_url_shape (py ''dQw4w9WgXcQ'' @ [10]) \<and>
   \<not> bare_id (py ''dQw4w9WgXcQ'' @ [10]) \<and>
   extract_video_id (py ''dQw4w9WgXcQ'' @ [10]) = Some (py ''dQw4w9WgXcQ'') \<and>
   get_transcript (sample_library [] []) (JStr (py ''dQw4w9WgXcQ'' @ [10])) =
     ([(py ''success'', JBool False),
       (py ''error'', JStr (py ''Could not fetch transcript: No transcripts available'')),
       (py ''videoId'', JStr (py ''dQw4w9WgXcQ''))],
      [ListTranscripts (py ''dQw4w9WgXcQ''),
       FindManuallyCreated [py ''en''], FindManuallyCreated [py ''en-US''],
       FindManuallyCreated [py ''en-GB''], FindGenerated [py ''en''], Enumerate])"
proof -
  have l: "length (py ''dQw4w9WgXcQ'' @ [10]) = 12"
    by simp
  have e: "extract_video_id (py ''dQw4w9WgXcQ'' @ [10]) = Some (py ''dQw4w9WgXcQ'')"
    by code_simp
  have "re_search (match_shapes url_shapes) (py ''dQw4w9WgXcQ'' @ [10]) = None"
    by code_simp
  then have c: "\<not> contains_url_shape (py ''dQw4w9WgXcQ'' @ [10])"
    unfolding re_search_shapes_None_iff .
  have b: "\<not> bare_id (py ''dQw4w9WgXcQ'' @ [10])"
    by (simp add: bare_id_def)
  have "get_transcript (sample_library [] []) (JStr (py ''dQw4w9WgXcQ'' @ [10])) =
     (failure_result (py ''Could not fetch transcript: '' @ py ''No transcripts available'')
        (JStr (py ''dQw4w9WgXcQ'')),
      [ListTranscripts (py ''dQw4w9WgXcQ''),
       FindManuallyCreated [py ''en''], FindManuallyCreated [py ''en-US''],
       FindManuallyCreated [py ''en-GB''], FindGenerated [py ''en''], Enumerate])"
    by (simp add: get_transcript_def e sample_library_def select_transcript_def
        auto_generated_def last_resort_def sample_list_def)
  moreover have "py ''Could not fetch transcript: '' @ py ''No transcripts available'' =
      py ''Could not fetch transcript: No transcripts available''"
    by (simp add: py_def)
  ultimately have g: "get_transcript (sample_library [] []) (JStr (py ''dQw4w9WgXcQ'' @ [10])) =
     ([(py ''success'', JBool False),
       (py ''error'', JStr (py ''Could not fetch transcript: No transcripts available'')),
       (py ''videoId'', JStr (py ''dQw4w9WgXcQ''))],
      [ListTranscripts (py ''dQw4w9WgXcQ''),
       FindManuallyCreated [py ''en''], FindManuallyCreated [py ''en-US''],
       FindManuallyCreated [py ''en-GB''], FindGenerated [py ''en''], Enumerate])"
    by (simp add: failure_result_def)
  from l c b e g show ?thesis
    by blast
qed

text \<open>An input that is rejected: no URL shape and no bare id.\<close>

lemma sample_invalid_input:
  "get_transcript (sample_library [] []) (JStr (py ''not a video'')) =
     ([(py ''success'', JBool False),
       (py ''error'', JStr (py ''Invalid YouTube URL or video ID'')),
       (py ''videoId'', JNull)], [])"
proof -
  have "extract_video_id (py ''not a video'') = None"
    by code_simp
  then show ?thesis
    by (simp add: get_transcript_def failure_result_def)
qed

end
